theory Spec2Isabelle
  imports Main
begin

section \<open>The CORBA discovery client \<open>CorbaAccess\<close> (corba\_access.cc)\<close>

text \<open>
  \<open>CorbaAccess\<close> keeps two process-wide handles, the ORB and the root naming context,
  and offers four operations on them: \<open>InitOrb\<close>, \<open>DestroyOrb\<close>, \<open>knownTasks\<close> and
  \<open>findByName\<close>. Everything else it touches is the omniORB runtime and the remote
  naming service, which are not part of the repository. They enter the model as an
  \<open>environment\<close>: one function for each library or remote call the source makes, giving
  the outcome of that call (a value, or the exception it raises).
\<close>

subsection \<open>Exceptions\<close>

text \<open>
  Three classes of C++ exception matter to the handlers of the source:
  \<^item> \<open>CORBA::Exception\<close> and its subclasses, among them
    \<open>CosNaming::NamingContext::NotFound\<close>, the only one a handler names;
  \<^item> \<open>IllegalServer\<close>, declared in corba\_access.hh as a subclass of
    \<open>std::exception\<close> (so it is not a \<open>CORBA::Exception\<close>);
  \<^item> anything else, which only \<open>catch (...)\<close> matches.
\<close>

datatype corba_exception =
    NotFound
  | SystemException string
  | UserException string

text \<open>\<open>e._name()\<close>, the text the handlers print.\<close>

fun exception_name :: "corba_exception \<Rightarrow> string" where
  "exception_name NotFound = ''NotFound''"
| "exception_name (SystemException n) = n"
| "exception_name (UserException n) = n"

text \<open>
  \<open>std::string::c_str()\<close> gives the characters up to the first NUL; that is what
  \<open>what()\<close> returns and what \<open>CORBA::string_dup\<close> copies.
\<close>

definition c_str :: "string \<Rightarrow> string" where
  "c_str s = takeWhile (\<lambda>c. c \<noteq> CHR 0x00) s"

record IllegalServer =
  reason :: string

text \<open>The constructor \<open>IllegalServer::IllegalServer()\<close> and \<open>what()\<close>.\<close>

definition IllegalServer_ctor :: IllegalServer where
  "IllegalServer_ctor = \<lparr>reason = ''This server does not exist or has the wrong type.''\<rparr>"

definition what :: "IllegalServer \<Rightarrow> string" where
  "what e = c_str (reason e)"

datatype exn =
    CORBA_Exception corba_exception
  | IllegalServer_exn IllegalServer
  | Other_exn string

fun is_CORBA :: "exn \<Rightarrow> bool" where
  "is_CORBA (CORBA_Exception e) = True"
| "is_CORBA x = False"

subsection \<open>References, names and bindings\<close>

text \<open>
  An object reference is nil or designates an object. \<open>ORB_var\<close>,
  \<open>NamingContext_var\<close>, \<open>Object_var\<close> and \<open>ControlTask_var\<close> all hold such a reference.
\<close>

datatype objref = nil | Ref nat

definition is_nil :: "objref \<Rightarrow> bool" where
  "is_nil r = (r = nil)"

text \<open>\<open>CosNaming::NameComponent\<close>, \<open>CosNaming::Name\<close> and \<open>CosNaming::Binding\<close>.\<close>

record NameComponent =
  id_str :: string
  kind :: string

type_synonym Name = "NameComponent list"

datatype BindingType = nobject | ncontext

record Binding =
  binding_name :: Name
  binding_type :: BindingType

subsection \<open>The environment: omniORB and the naming service\<close>

text \<open>
  Each field is one call of the source on the library or on a remote object; \<open>Inl\<close> is
  the exception the call raises. What a call on a nil reference does is the library's
  business as well, so it is part of the same functions. The binding iterator is a
  remote object with a state of its own: \<open>next_n\<close> takes that state and returns the
  new one with the flag and the batch. \<open>ORB_init\<close> also strips the options it
  recognises from \<open>argv\<close>; no operation reads \<open>argv\<close> afterwards, and that effect is
  left out.
\<close>

record 'it environment =
  ORB_init :: "string list \<Rightarrow> exn + objref"
  resolve_initial_references :: "objref \<Rightarrow> string \<Rightarrow> exn + objref"
  NamingContext_narrow :: "objref \<Rightarrow> exn + objref"
  NamingContext_destroy :: "objref \<Rightarrow> exn + unit"
  ORB_destroy :: "objref \<Rightarrow> exn + unit"
  resolve :: "objref \<Rightarrow> Name \<Rightarrow> exn + objref"
  NamingContext_list :: "objref \<Rightarrow> nat \<Rightarrow> exn + (Binding list \<times> 'it)"
  next_n :: "'it \<Rightarrow> nat \<Rightarrow> exn + (bool \<times> Binding list \<times> 'it)"
  ControlTask_narrow :: "objref \<Rightarrow> exn + objref"
  getName :: "objref \<Rightarrow> exn + string"

subsection \<open>The state of the process\<close>

text \<open>
  The two static members of \<open>CorbaAccess\<close>, and the lines written to \<open>cerr\<close> and
  \<open>cout\<close>.
\<close>

record state =
  orb :: objref
  rootContext :: objref
  cerr :: "string list"
  cout :: "string list"

text \<open>Static initialisation: both \<open>_var\<close>s start out nil.\<close>

definition initial_state :: state where
  "initial_state = \<lparr>orb = nil, rootContext = nil, cerr = [], cout = []\<rparr>"

subsection \<open>InitOrb\<close>

text \<open>The body of the \<open>try\<close> block (lines 19 to 42).\<close>

definition InitOrb_try :: "'it environment \<Rightarrow> string list \<Rightarrow> state \<Rightarrow> (exn + bool) \<times> state" where
  "InitOrb_try E argv s =
     (case ORB_init E argv of
        Inl e \<Rightarrow> (Inl e, s)
      | Inr o1 \<Rightarrow>
          (let s1 = s\<lparr>orb := o1\<rparr> in
           case resolve_initial_references E (orb s1) ''NameService'' of
             Inl e \<Rightarrow> (Inl e, s1)
           | Inr rootObj \<Rightarrow>
               (case NamingContext_narrow E rootObj of
                  Inl e \<Rightarrow> (Inl e, s1)
                | Inr nc \<Rightarrow>
                    (let s2 = s1\<lparr>rootContext := nc\<rparr> in
                     if is_nil rootObj
                     then (Inl (IllegalServer_exn IllegalServer_ctor),
                           s2\<lparr>cerr := cerr s2 @ [''CorbaAccess could not acquire NameService.'']\<rparr>)
                     else (Inr True,
                           s2\<lparr>cout := cout s2 @ [''found CORBA NameService.'']\<rparr>)))))"

text \<open>
  The handler \<open>catch (CORBA::Exception &e)\<close> and the \<open>return false\<close> after it. An
  exception of any other class leaves the function.
\<close>

fun InitOrb_catch :: "(exn + bool) \<times> state \<Rightarrow> (exn + bool) \<times> state" where
  "InitOrb_catch (Inl (CORBA_Exception e), s) =
     (Inr False,
      s\<lparr>cerr := cerr s @ [''Orb Init : CORBA exception raised!'', exception_name e]\<rparr>)"
| "InitOrb_catch r = r"

definition InitOrb :: "'it environment \<Rightarrow> string list \<Rightarrow> state \<Rightarrow> (exn + bool) \<times> state" where
  "InitOrb E argv s =
     (if \<not> is_nil (orb s) then (Inr False, s)
      else InitOrb_catch (InitOrb_try E argv s))"

subsection \<open>DestroyOrb\<close>

definition DestroyOrb_try :: "'it environment \<Rightarrow> state \<Rightarrow> (exn + unit) \<times> state" where
  "DestroyOrb_try E s =
     (case NamingContext_destroy E (rootContext s) of
        Inl e \<Rightarrow> (Inl e, s)
      | Inr u \<Rightarrow>
          (case ORB_destroy E (orb s) of
             Inl e \<Rightarrow> (Inl e, s)
           | Inr v \<Rightarrow> (Inr (), s\<lparr>cerr := cerr s @ [''Orb destroyed.'']\<rparr>)))"

fun DestroyOrb_catch :: "(exn + unit) \<times> state \<Rightarrow> (exn + unit) \<times> state" where
  "DestroyOrb_catch (Inl (CORBA_Exception e), s) =
     (Inr (),
      s\<lparr>cerr := cerr s @ [''Orb destruction : CORBA exception raised!'', exception_name e]\<rparr>)"
| "DestroyOrb_catch r = r"

definition DestroyOrb :: "'it environment \<Rightarrow> state \<Rightarrow> (exn + unit) \<times> state" where
  "DestroyOrb E s = DestroyOrb_catch (DestroyOrb_try E s)"

subsection \<open>knownTasks\<close>

text \<open>
  The \<open>for\<close> loop over one batch. \<open>binding_name[0]\<close> on an empty name is out of range:
  omniORB's sequence template checks the index and raises the system exception
  \<open>BAD_PARAM\<close>. The names pushed so far stay in \<open>names\<close>. The index is an \<open>int\<close>
  compared with the unsigned length; a batch asked for with \<open>next_n(10, ...)\<close> has at
  most ten elements, far below the range where that would matter.
\<close>

definition bound_check_error :: exn where
  "bound_check_error = CORBA_Exception (SystemException ''BAD_PARAM'')"

fun push_names :: "Binding list \<Rightarrow> string list \<Rightarrow> exn option \<times> string list" where
  "push_names [] names = (None, names)"
| "push_names (b # bs) names =
     (case binding_name b of
        [] \<Rightarrow> (Some bound_check_error, names)
      | c # cs \<Rightarrow> push_names bs (names @ [id_str c]))"

text \<open>
  The \<open>while\<close> loop. Nothing in the source bounds the number of rounds: an iterator
  that keeps answering true keeps the loop running, and the model then has no value.
\<close>

partial_function (option) next_n_loop ::
  "'it environment \<Rightarrow> 'it \<Rightarrow> string list \<Rightarrow> (exn option \<times> string list) option" where
  "next_n_loop E binding_it names =
     (case next_n E binding_it 10 of
        Inl e \<Rightarrow> Some (Some e, names)
      | Inr r \<Rightarrow>
          (case r of (has_more, binding_list, binding_it') \<Rightarrow>
             if has_more
             then (case push_names binding_list names of
                     (Some e, names') \<Rightarrow> Some (Some e, names')
                   | (None, names') \<Rightarrow> next_n_loop E binding_it' names')
             else Some (None, names)))"

declare next_n_loop.simps [code]

text \<open>The one-component name built in lines 72 to 74.\<close>

definition ControlTasks_name :: Name where
  "ControlTasks_name = [\<lparr>id_str = ''ControlTasks'', kind = ''''\<rparr>]"

text \<open>The body of the \<open>try\<close> block (lines 77 to 90); \<open>names\<close> outlives the block.\<close>

definition knownTasks_try :: "'it environment \<Rightarrow> state \<Rightarrow> (exn option \<times> string list) option" where
  "knownTasks_try E s =
     (let serverName = ControlTasks_name;
          names = []
      in case resolve E (rootContext s) serverName of
           Inl e \<Rightarrow> Some (Some e, names)
         | Inr control_tasks_var \<Rightarrow>
             (case NamingContext_narrow E control_tasks_var of
                Inl e \<Rightarrow> Some (Some e, names)
              | Inr control_tasks \<Rightarrow>
                  (case NamingContext_list E control_tasks 0 of
                     Inl e \<Rightarrow> Some (Some e, names)
                   | Inr r \<Rightarrow>
                       (case r of (binding_list, binding_it) \<Rightarrow>
                          next_n_loop E binding_it names))))"

text \<open>
  The handler \<open>catch (CosNaming::NamingContext::NotFound)\<close>, with its empty body, and
  \<open>return names\<close>. Every other exception leaves the function.
\<close>

fun knownTasks_catch :: "exn option \<times> string list \<Rightarrow> exn + string list" where
  "knownTasks_catch (None, names) = Inr names"
| "knownTasks_catch (Some (CORBA_Exception NotFound), names) = Inr names"
| "knownTasks_catch (Some e, names) = Inl e"

definition knownTasks :: "'it environment \<Rightarrow> state \<Rightarrow> (exn + string list) option" where
  "knownTasks E s = map_option knownTasks_catch (knownTasks_try E s)"

subsection \<open>findByName\<close>

text \<open>The two-component name built in lines 98 to 101.\<close>

definition task_name :: "string \<Rightarrow> Name" where
  "task_name name =
     [\<lparr>id_str = ''ControlTasks'', kind = ''''\<rparr>, \<lparr>id_str = c_str name, kind = ''''\<rparr>]"

definition quote :: string where
  "quote = [CHR 0x27]"

text \<open>The body of the \<open>try\<close> block (lines 97 to 113).\<close>

definition findByName_try :: "'it environment \<Rightarrow> string \<Rightarrow> state \<Rightarrow> (exn + objref) \<times> state" where
  "findByName_try E name s =
     (let serverName = task_name name in
      case resolve E (rootContext s) serverName of
        Inl e \<Rightarrow> (Inl e, s)
      | Inr task_object \<Rightarrow>
          (case ControlTask_narrow E task_object of
             Inl e \<Rightarrow> (Inl e, s)
           | Inr mtask \<Rightarrow>
               if is_nil mtask
               then (Inl (IllegalServer_exn IllegalServer_ctor),
                     s\<lparr>cerr := cerr s @
                        [''Failed to acquire ControlTaskServer '' @ quote @ name @ quote @ ''.'']\<rparr>)
               else (case getName E mtask of
                       Inl e \<Rightarrow> (Inl e, s)
                     | Inr nm \<Rightarrow>
                         (Inr mtask,
                          s\<lparr>cout := cout s @
                             [''Successfully connected to ControlTaskServer '' @ quote @ nm @ quote @ ''.'']\<rparr>))))"

text \<open>
  The handlers, in the order of the source: \<open>catch (CORBA::Exception &e)\<close> throws a
  fresh \<open>IllegalServer\<close>; \<open>catch (...)\<close> rethrows what it caught, which includes the
  \<open>IllegalServer\<close> thrown inside the block.
\<close>

fun findByName_catch :: "(exn + objref) \<times> state \<Rightarrow> (exn + objref) \<times> state" where
  "findByName_catch (Inl (CORBA_Exception e), s) =
     (Inl (IllegalServer_exn IllegalServer_ctor),
      s\<lparr>cerr := cerr s @ [''CORBA exception raised when resolving Object !'', exception_name e]\<rparr>)"
| "findByName_catch (Inl x, s) =
     (Inl x, s\<lparr>cerr := cerr s @ [''Unknown Exception in CorbaAccess construction!'']\<rparr>)"
| "findByName_catch (Inr mtask, s) = (Inr mtask, s)"

definition findByName :: "'it environment \<Rightarrow> string \<Rightarrow> state \<Rightarrow> (exn + objref) \<times> state" where
  "findByName E name s = findByName_catch (findByName_try E name s)"

subsection \<open>The iterator protocol\<close>

text \<open>
  What \<open>knownTasks\<close> expects of the binding iterator it is given, stated on the
  answers to \<open>next_n(10, ...)\<close>: the iterator hands out the batches \<open>pages\<close>, one for
  each call, each with the flag true, and then answers false with an empty batch.
  A batch has at most the ten bindings asked for; within that the sizes are free.
\<close>

fun serves :: "'it environment \<Rightarrow> 'it \<Rightarrow> Binding list list \<Rightarrow> bool" where
  "serves E it [] =
     (case next_n E it 10 of
        Inl e \<Rightarrow> False
      | Inr r \<Rightarrow> (case r of (has_more, bl, it') \<Rightarrow> \<not> has_more \<and> bl = []))"
| "serves E it (p # ps) =
     (case next_n E it 10 of
        Inl e \<Rightarrow> False
      | Inr r \<Rightarrow> (case r of (has_more, bl, it') \<Rightarrow>
                   has_more \<and> bl = p \<and> length p \<le> 10 \<and> serves E it' ps))"

text \<open>The first component of a binding's name, when it has one.\<close>

definition first_id :: "Binding \<Rightarrow> string" where
  "first_id b = (case binding_name b of [] \<Rightarrow> [] | c # cs \<Rightarrow> id_str c)"

subsection \<open>A concrete naming service\<close>

text \<open>
  An environment to run the operations in: the ORB is object 0, the root naming
  context object 1 and the context \<open>ControlTasks\<close> object 2. \<open>tasks\<close> lists what is
  bound under \<open>ControlTasks\<close>, \<open>servers\<close> the objects that are control tasks, with the
  name each declares. A call on a nil reference raises \<open>INV_OBJREF\<close>, as omniORB does.
  The iterator state is the list of bindings not yet handed out.
\<close>

definition INV_OBJREF :: exn where
  "INV_OBJREF = CORBA_Exception (SystemException ''INV_OBJREF'')"

definition task_binding :: "string \<Rightarrow> Binding" where
  "task_binding n = \<lparr>binding_name = [\<lparr>id_str = n, kind = ''''\<rparr>], binding_type = nobject\<rparr>"

fun registry_resolve :: "(string \<times> objref) list \<Rightarrow> objref \<Rightarrow> Name \<Rightarrow> exn + objref" where
  "registry_resolve tasks nil n = Inl INV_OBJREF"
| "registry_resolve tasks (Ref k) [c] =
     (if k = 1 \<and> id_str c = ''ControlTasks'' then Inr (Ref 2)
      else Inl (CORBA_Exception NotFound))"
| "registry_resolve tasks (Ref k) [c, d] =
     (if k = 1 \<and> id_str c = ''ControlTasks''
      then (case map_of tasks (id_str d) of
              None \<Rightarrow> Inl (CORBA_Exception NotFound)
            | Some r \<Rightarrow> Inr r)
      else Inl (CORBA_Exception NotFound))"
| "registry_resolve tasks (Ref k) n = Inl (CORBA_Exception NotFound)"

definition registry_next_n :: "Binding list \<Rightarrow> nat \<Rightarrow> exn + (bool \<times> Binding list \<times> Binding list)" where
  "registry_next_n it how_many =
     (if it = [] then Inr (False, [], [])
      else Inr (True, take how_many it, drop how_many it))"

definition registry_env ::
  "(string \<times> objref) list \<Rightarrow> (objref \<times> string) list \<Rightarrow> (Binding list) environment" where
  "registry_env tasks servers =
     \<lparr>ORB_init = (\<lambda>argv. Inr (Ref 0)),
      resolve_initial_references =
        (\<lambda>r n. if r = nil then Inl INV_OBJREF
                else if n = ''NameService'' then Inr (Ref 1)
                else Inl (CORBA_Exception (UserException ''InvalidName''))),
      NamingContext_narrow = (\<lambda>r. if r = Ref 1 \<or> r = Ref 2 then Inr r else Inr nil),
      NamingContext_destroy = (\<lambda>r. if r = nil then Inl INV_OBJREF else Inr ()),
      ORB_destroy = (\<lambda>r. if r = nil then Inl INV_OBJREF else Inr ()),
      resolve = registry_resolve tasks,
      NamingContext_list =
        (\<lambda>r how_many.
           if r = Ref 2
           then Inr (take how_many (map (\<lambda>t. task_binding (fst t)) tasks),
                     drop how_many (map (\<lambda>t. task_binding (fst t)) tasks))
           else Inl INV_OBJREF),
      next_n = registry_next_n,
      ControlTask_narrow = (\<lambda>r. if map_of servers r = None then Inr nil else Inr r),
      getName = (\<lambda>r. case map_of servers r of None \<Rightarrow> Inl INV_OBJREF | Some nm \<Rightarrow> Inr nm)\<rparr>"

text \<open>Two control tasks and one object of another type.\<close>

definition demo_tasks :: "(string \<times> objref) list" where
  "demo_tasks = [(''alpha'', Ref 10), (''beta'', Ref 11), (''gamma'', Ref 12)]"

definition demo_servers :: "(objref \<times> string) list" where
  "demo_servers = [(Ref 10, ''alpha''), (Ref 11, ''beta'')]"

definition demo_env :: "(Binding list) environment" where
  "demo_env = registry_env demo_tasks demo_servers"

text \<open>The state a successful \<open>InitOrb\<close> leaves in that environment.\<close>

definition ready_state :: state where
  "ready_state = \<lparr>orb = Ref 0, rootContext = Ref 1, cerr = [],
                  cout = [''found CORBA NameService.'']\<rparr>"

text \<open>
  Variations of it: the ORB hands out a nil reference for \<open>NameService\<close>; the naming
  service cannot be reached; the object behind \<open>NameService\<close> is not a naming context;
  \<open>getName\<close> fails with something that is not a CORBA exception; nothing is bound
  under the name \<open>ControlTasks\<close>; \<open>ControlTasks\<close> is bound and empty.
\<close>

definition env_nil_NameService :: "(Binding list) environment" where
  "env_nil_NameService = demo_env\<lparr>resolve_initial_references := (\<lambda>r n. Inr nil)\<rparr>"

definition env_unreachable :: "(Binding list) environment" where
  "env_unreachable =
     demo_env\<lparr>resolve_initial_references :=
                (\<lambda>r n. Inl (CORBA_Exception (SystemException ''TRANSIENT'')))\<rparr>"

definition env_wrong_type :: "(Binding list) environment" where
  "env_wrong_type = demo_env\<lparr>NamingContext_narrow := (\<lambda>r. Inr nil)\<rparr>"

definition env_bad_alloc :: "(Binding list) environment" where
  "env_bad_alloc = demo_env\<lparr>getName := (\<lambda>r. Inl (Other_exn ''std::bad_alloc''))\<rparr>"

definition env_no_ControlTasks :: "(Binding list) environment" where
  "env_no_ControlTasks = demo_env\<lparr>resolve := (\<lambda>r n. Inl (CORBA_Exception NotFound))\<rparr>"

definition env_empty :: "(Binding list) environment" where
  "env_empty = registry_env [] []"





definition env_destroy_fails :: "(Binding list) environment" where
  "env_destroy_fails =
     demo_env\<lparr>ORB_destroy :=
                (\<lambda>r. Inl (CORBA_Exception (SystemException ''BAD_INV_ORDER'')))\<rparr>"

text \<open>
  A naming service that follows the CosNaming rule for \<open>list\<close>: when no binding remains
  beyond the batch returned at once, the iterator it returns is a nil reference, here
  \<open>None\<close>, and a call on that raises \<open>INV_OBJREF\<close>. A live iterator behaves as in
  \<open>registry_env\<close>, and so does everything else.
\<close>

definition cos_list :: "Binding list \<Rightarrow> nat \<Rightarrow> Binding list \<times> Binding list option" where
  "cos_list bs how_many =
     (take how_many bs,
      if drop how_many bs = [] then None else Some (drop how_many bs))"

definition cos_next_n ::
  "Binding list option \<Rightarrow> nat \<Rightarrow> exn + (bool \<times> Binding list \<times> Binding list option)" where
  "cos_next_n it how_many =
     (case it of
        None \<Rightarrow> Inl INV_OBJREF
      | Some bs \<Rightarrow>
          (if bs = [] then Inr (False, [], Some [])
           else Inr (True, take how_many bs, Some (drop how_many bs))))"

definition cos_registry_env ::
  "(string \<times> objref) list \<Rightarrow> (objref \<times> string) list \<Rightarrow> (Binding list option) environment" where
  "cos_registry_env tasks servers =
     \<lparr>ORB_init = ORB_init (registry_env tasks servers),
      resolve_initial_references = resolve_initial_references (registry_env tasks servers),
      NamingContext_narrow = NamingContext_narrow (registry_env tasks servers),
      NamingContext_destroy = NamingContext_destroy (registry_env tasks servers),
      ORB_destroy = ORB_destroy (registry_env tasks servers),
      resolve = resolve (registry_env tasks servers),
      NamingContext_list =
        (\<lambda>r how_many.
           if r = Ref 2
           then Inr (cos_list (map (\<lambda>t. task_binding (fst t)) tasks) how_many)
           else Inl INV_OBJREF),
      next_n = cos_next_n,
      ControlTask_narrow = ControlTask_narrow (registry_env tasks servers),
      getName = getName (registry_env tasks servers)\<rparr>"

text \<open>On that service: \<open>ControlTasks\<close> bound and empty, and the three demo bindings.\<close>

definition env_empty_nil_iterator :: "(Binding list option) environment" where
  "env_empty_nil_iterator = cos_registry_env [] []"

definition env_demo_cos :: "(Binding list option) environment" where
  "env_demo_cos = cos_registry_env demo_tasks demo_servers"

section \<open>Properties\<close>

lemmas env_defs = demo_env_def registry_env_def demo_tasks_def demo_servers_def
  env_nil_NameService_def env_unreachable_def env_wrong_type_def env_bad_alloc_def
  env_no_ControlTasks_def env_empty_def env_destroy_fails_def initial_state_def
  ready_state_def INV_OBJREF_def

subsection \<open>What the handlers and the operations leave alone\<close>

lemma InitOrb_try_orb:
  "ORB_init E argv = Inr r \<Longrightarrow> orb (snd (InitOrb_try E argv s)) = r"
  by (simp add: InitOrb_try_def Let_def split: sum.splits)

lemma InitOrb_catch_orb: "orb (snd (InitOrb_catch x)) = orb (snd x)"
  by (cases x rule: InitOrb_catch.cases) simp_all

lemma InitOrb_catch_rootContext: "rootContext (snd (InitOrb_catch x)) = rootContext (snd x)"
  by (cases x rule: InitOrb_catch.cases) simp_all

text \<open>
  \<open>DestroyOrb\<close> destroys the objects behind the two handles and assigns to neither;
  \<open>findByName\<close> only reads \<open>rootContext\<close>.
\<close>

lemma DestroyOrb_keeps_handles:
  "orb (snd (DestroyOrb E s)) = orb s \<and> rootContext (snd (DestroyOrb E s)) = rootContext s"
  by (cases "DestroyOrb_try E s" rule: DestroyOrb_catch.cases)
     (auto simp: DestroyOrb_def DestroyOrb_try_def split: sum.splits)

lemma findByName_keeps_handles:
  "orb (snd (findByName E name s)) = orb s
   \<and> rootContext (snd (findByName E name s)) = rootContext s"
  by (cases "findByName_try E name s" rule: findByName_catch.cases)
     (auto simp: findByName_def findByName_try_def Let_def split: sum.splits if_splits)

subsection \<open>InitOrb and DestroyOrb\<close>

text \<open>
  C3, as amended. In the uninitialized state, when the ORB starts and the reference
  resolved for \<open>NameService\<close> is nil (narrowing that nil reference raises nothing),
  \<open>InitOrb\<close> writes its diagnostic to \<open>cerr\<close> and raises \<open>IllegalServer\<close> to its
  caller. \<open>IllegalServer\<close> is not a \<open>CORBA::Exception\<close>, so the handler of \<open>InitOrb\<close>
  does not catch it, and \<open>InitOrb\<close> does not return false. The ORB handle stays
  assigned.
\<close>

theorem InitOrb_nil_NameService_raises_IllegalServer:
  assumes "orb s = nil"
    and "ORB_init E argv = Inr r"
    and "resolve_initial_references E r ''NameService'' = Inr nil"
    and "NamingContext_narrow E nil = Inr nc"
  shows "InitOrb E argv s =
           (Inl (IllegalServer_exn IllegalServer_ctor),
            s\<lparr>orb := r, rootContext := nc,
              cerr := cerr s @ [''CorbaAccess could not acquire NameService.'']\<rparr>)
         \<and> \<not> is_CORBA (IllegalServer_exn IllegalServer_ctor)"
  using assms by (simp add: InitOrb_def InitOrb_try_def is_nil_def)

theorem InitOrb_nil_NameService_raises_IllegalServer_witness:
  "InitOrb env_nil_NameService [] initial_state =
     (Inl (IllegalServer_exn IllegalServer_ctor),
      \<lparr>orb = Ref 0, rootContext = nil,
        cerr = [''CorbaAccess could not acquire NameService.''], cout = []\<rparr>)"
proof -
  have h1: "orb initial_state = nil" by (simp add: initial_state_def)
  have h2: "ORB_init env_nil_NameService [] = Inr (Ref 0)" by (simp add: env_defs)
  have h3: "resolve_initial_references env_nil_NameService (Ref 0) ''NameService'' = Inr nil"
    by (simp add: env_defs)
  have h4: "NamingContext_narrow env_nil_NameService nil = Inr nil" by (simp add: env_defs)
  from InitOrb_nil_NameService_raises_IllegalServer [OF h1 h2 h3 h4] show ?thesis
    by (simp add: initial_state_def)
qed

text \<open>
  The statement that \<open>InitOrb\<close> returns false there does not hold: with an ORB that
  starts and a nil \<open>NameService\<close> reference, the call from the uninitialized state
  ends in \<open>IllegalServer\<close>.
\<close>

theorem InitOrb_nil_NameService_counterexample:
  "orb initial_state = nil
   \<and> ORB_init env_nil_NameService [] = Inr (Ref 0)
   \<and> resolve_initial_references env_nil_NameService (Ref 0) ''NameService'' = Inr nil
   \<and> fst (InitOrb env_nil_NameService [] initial_state)
       = Inl (IllegalServer_exn IllegalServer_ctor)
   \<and> fst (InitOrb env_nil_NameService [] initial_state) \<noteq> Inr False"
  by (simp add: InitOrb_def InitOrb_try_def env_defs is_nil_def)

text \<open>
  C4, as amended. \<open>InitOrb\<close> returns true only if it started from a nil \<open>orb\<close>, \<open>orb\<close>
  now holds the non-nil handle \<open>ORB_init\<close> returned, the reference resolved for
  \<open>NameService\<close> is non-nil and \<open>rootContext\<close> holds the result of narrowing it. A
  failure after \<open>ORB_init\<close> is not rolled back, so \<open>orb\<close> can be initialized while
  \<open>rootContext\<close> is nil. The converse does not arise: if \<open>rootContext\<close> is initialized
  only when \<open>orb\<close> is before the call (as in the uninitialized state), the same is true
  after \<open>InitOrb\<close>; and \<open>DestroyOrb\<close> changes neither handle. All of this for an
  \<open>ORB_init\<close> that never returns a nil handle.
\<close>

theorem InitOrb_true_and_handles:
  assumes "\<forall>r. ORB_init E argv = Inr r \<longrightarrow> r \<noteq> nil"
  shows "(InitOrb E argv s = (Inr True, s') \<longrightarrow>
            orb s = nil \<and> ORB_init E argv = Inr (orb s') \<and> orb s' \<noteq> nil
            \<and> (\<exists>rootObj. resolve_initial_references E (orb s') ''NameService'' = Inr rootObj
                  \<and> rootObj \<noteq> nil
                  \<and> NamingContext_narrow E rootObj = Inr (rootContext s')))
         \<and> ((rootContext s \<noteq> nil \<longrightarrow> orb s \<noteq> nil) \<longrightarrow>
              (rootContext (snd (InitOrb E argv s)) \<noteq> nil \<longrightarrow>
                 orb (snd (InitOrb E argv s)) \<noteq> nil))
         \<and> orb (snd (DestroyOrb E s)) = orb s
         \<and> rootContext (snd (DestroyOrb E s)) = rootContext s"
proof (intro conjI impI)
  assume t: "InitOrb E argv s = (Inr True, s')"
  then have n: "orb s = nil"
    by (auto simp: InitOrb_def is_nil_def split: if_splits)
  with t have c: "InitOrb_catch (InitOrb_try E argv s) = (Inr True, s')"
    by (simp add: InitOrb_def is_nil_def)
  obtain x s1 where b: "InitOrb_try E argv s = (x, s1)" by (cases "InitOrb_try E argv s")
  with c have "x = Inr True \<and> s1 = s'"
    by (cases "(x, s1)" rule: InitOrb_catch.cases) auto
  with b have "InitOrb_try E argv s = (Inr True, s')" by simp
  then obtain r rootObj nc where
    "ORB_init E argv = Inr r" "resolve_initial_references E r ''NameService'' = Inr rootObj"
    "NamingContext_narrow E rootObj = Inr nc" "rootObj \<noteq> nil"
    "orb s' = r" "rootContext s' = nc"
    by (auto simp: InitOrb_try_def Let_def is_nil_def split: sum.splits if_splits)
  with assms n show "orb s = nil" "ORB_init E argv = Inr (orb s')" "orb s' \<noteq> nil"
    "\<exists>rootObj. resolve_initial_references E (orb s') ''NameService'' = Inr rootObj
        \<and> rootObj \<noteq> nil \<and> NamingContext_narrow E rootObj = Inr (rootContext s')"
    by auto
next
  assume i: "rootContext s \<noteq> nil \<longrightarrow> orb s \<noteq> nil"
    and rc: "rootContext (snd (InitOrb E argv s)) \<noteq> nil"
  show "orb (snd (InitOrb E argv s)) \<noteq> nil"
  proof (cases "orb s = nil")
    case False
    then show ?thesis by (simp add: InitOrb_def is_nil_def)
  next
    case True
    with i have r0: "rootContext s = nil" by blast
    show ?thesis
    proof (cases "ORB_init E argv")
      case (Inl e)
      with True r0 rc show ?thesis
        by (simp add: InitOrb_def is_nil_def InitOrb_try_def InitOrb_catch_rootContext)
    next
      case (Inr r)
      with assms have "r \<noteq> nil" by simp
      with True Inr show ?thesis
        by (simp add: InitOrb_def is_nil_def InitOrb_catch_orb InitOrb_try_orb)
    qed
  qed
next
  show "orb (snd (DestroyOrb E s)) = orb s"
    by (simp add: DestroyOrb_keeps_handles)
  show "rootContext (snd (DestroyOrb E s)) = rootContext s"
    by (simp add: DestroyOrb_keeps_handles)
qed

theorem InitOrb_true_and_handles_witness:
  "InitOrb demo_env [] initial_state = (Inr True, ready_state)
   \<and> orb ready_state \<noteq> nil
   \<and> resolve_initial_references demo_env (orb ready_state) ''NameService'' = Inr (Ref 1)
   \<and> orb (snd (DestroyOrb demo_env ready_state)) = Ref 0
   \<and> rootContext (snd (DestroyOrb demo_env ready_state)) = Ref 1"
proof -
  have h1: "\<forall>r. ORB_init demo_env [] = Inr r \<longrightarrow> r \<noteq> nil" by (simp add: env_defs)
  have h2: "InitOrb demo_env [] initial_state = (Inr True, ready_state)"
    by (simp add: InitOrb_def InitOrb_try_def env_defs is_nil_def)
  have h3: "resolve_initial_references demo_env (orb ready_state) ''NameService'' = Inr (Ref 1)"
    by (simp add: env_defs)
  have h4: "rootContext initial_state \<noteq> nil \<longrightarrow> orb initial_state \<noteq> nil"
    by (simp add: initial_state_def)
  from InitOrb_true_and_handles
         [OF h1, where s = initial_state and s' = ready_state] h2 h4
  have a: "orb ready_state \<noteq> nil" by blast
  from InitOrb_true_and_handles [OF h1, where s = ready_state]
  have b: "orb (snd (DestroyOrb demo_env ready_state)) = orb ready_state
           \<and> rootContext (snd (DestroyOrb demo_env ready_state)) = rootContext ready_state"
    by blast
  from a b h2 h3 show ?thesis by (simp add: ready_state_def)
qed

text \<open>
  Both halves of the unamended statement fail. When the naming service cannot be
  reached, \<open>InitOrb\<close> returns false and leaves \<open>orb\<close> initialized beside a nil
  \<open>rootContext\<close>. When the object behind \<open>NameService\<close> is not a naming context,
  \<open>InitOrb\<close> returns true with a nil \<open>rootContext\<close>: line 25 tests the reference that
  was resolved, not the one that was narrowed.
\<close>

theorem InitOrb_partial_state_counterexample:
  "fst (InitOrb env_unreachable [] initial_state) = Inr False
   \<and> orb (snd (InitOrb env_unreachable [] initial_state)) \<noteq> nil
   \<and> rootContext (snd (InitOrb env_unreachable [] initial_state)) = nil
   \<and> fst (InitOrb env_wrong_type [] initial_state) = Inr True
   \<and> orb (snd (InitOrb env_wrong_type [] initial_state)) \<noteq> nil
   \<and> rootContext (snd (InitOrb env_wrong_type [] initial_state)) = nil"
  by (simp add: InitOrb_def InitOrb_try_def env_defs is_nil_def)

text \<open>
  C5. In every state whose \<open>orb\<close> is initialized, \<open>InitOrb\<close>, in any environment and
  with any arguments, returns false and returns the state as it was: both handles,
  and the output too.
\<close>

theorem InitOrb_twice_returns_false:
  "orb s \<noteq> nil \<Longrightarrow> InitOrb E argv s = (Inr False, s)"
  by (simp add: InitOrb_def is_nil_def)

theorem InitOrb_twice_returns_false_witness:
  "InitOrb demo_env [] initial_state = (Inr True, ready_state)
   \<and> InitOrb env_unreachable [''-ORBInitRef''] ready_state = (Inr False, ready_state)"
proof -
  have h: "orb ready_state \<noteq> nil" by (simp add: ready_state_def)
  have i: "InitOrb demo_env [] initial_state = (Inr True, ready_state)"
    by (simp add: InitOrb_def InitOrb_try_def env_defs is_nil_def)
  from InitOrb_twice_returns_false [OF h] i show ?thesis by simp
qed

text \<open>
  C10. When \<open>InitOrb\<close>, called with a nil \<open>orb\<close>, gets a non-nil handle from
  \<open>ORB_init\<close> and still returns false, \<open>orb\<close> holds that handle afterwards, and in the
  state it leaves every call of \<open>InitOrb\<close>, in any environment and with any arguments,
  returns false and that same state, without a result of the environment playing any
  part. (By \<open>DestroyOrb_keeps_handles\<close> and \<open>findByName_keeps_handles\<close> the other
  operations do not reset \<open>orb\<close> either.)
\<close>

theorem failed_InitOrb_is_not_retryable:
  assumes "orb s = nil" and "ORB_init E argv = Inr r" and "r \<noteq> nil"
    and "InitOrb E argv s = (Inr False, s')"
  shows "orb s' = r \<and> (\<forall>E' argv'. InitOrb E' argv' s' = (Inr False, s'))"
proof -
  from assms(1,4) have "InitOrb_catch (InitOrb_try E argv s) = (Inr False, s')"
    by (simp add: InitOrb_def is_nil_def)
  then have "orb s' = orb (snd (InitOrb_try E argv s))"
    using InitOrb_catch_orb [of "InitOrb_try E argv s"] by simp
  with assms(2) have "orb s' = r" by (simp add: InitOrb_try_orb)
  with assms(3) show ?thesis by (simp add: InitOrb_def is_nil_def)
qed

theorem failed_InitOrb_is_not_retryable_witness:
  "fst (InitOrb env_unreachable [] initial_state) = Inr False
   \<and> orb (snd (InitOrb env_unreachable [] initial_state)) = Ref 0
   \<and> InitOrb demo_env [] (snd (InitOrb env_unreachable [] initial_state))
       = (Inr False, snd (InitOrb env_unreachable [] initial_state))"
proof -
  have h1: "orb initial_state = nil" by (simp add: initial_state_def)
  have h2: "ORB_init env_unreachable [] = Inr (Ref 0)" by (simp add: env_defs)
  have h3: "Ref 0 \<noteq> nil" by simp
  have h4: "InitOrb env_unreachable [] initial_state
              = (Inr False, snd (InitOrb env_unreachable [] initial_state))"
    by (simp add: InitOrb_def InitOrb_try_def env_defs is_nil_def)
  from failed_InitOrb_is_not_retryable [OF h1 h2 h3 h4] h4 show ?thesis
    by (metis fst_conv)
qed

text \<open>
  C9. In every state, the uninitialized one and the one a failed \<open>InitOrb\<close> leaves
  included, when the two \<open>destroy\<close> calls raise nothing but CORBA exceptions (what a
  CORBA call raises, on a nil reference too under omniORB), \<open>DestroyOrb\<close> returns
  normally. The exception raised by either call is written to \<open>cerr\<close> with its name
  and goes no further.
\<close>

theorem DestroyOrb_swallows_CORBA_exceptions:
  assumes "\<forall>e. NamingContext_destroy E (rootContext s) = Inl e \<longrightarrow> is_CORBA e"
    and "\<forall>e. ORB_destroy E (orb s) = Inl e \<longrightarrow> is_CORBA e"
  shows "fst (DestroyOrb E s) = Inr ()
    \<and> (\<forall>c. NamingContext_destroy E (rootContext s) = Inl (CORBA_Exception c) \<longrightarrow>
          DestroyOrb E s =
            (Inr (), s\<lparr>cerr := cerr s @
               [''Orb destruction : CORBA exception raised!'', exception_name c]\<rparr>))
    \<and> (\<forall>c. NamingContext_destroy E (rootContext s) = Inr ()
            \<and> ORB_destroy E (orb s) = Inl (CORBA_Exception c) \<longrightarrow>
          DestroyOrb E s =
            (Inr (), s\<lparr>cerr := cerr s @
               [''Orb destruction : CORBA exception raised!'', exception_name c]\<rparr>))"
proof (intro conjI allI impI)
  show "fst (DestroyOrb E s) = Inr ()"
  proof (cases "NamingContext_destroy E (rootContext s)")
    case (Inl e)
    with assms(1) obtain c where "e = CORBA_Exception c" by (cases e) auto
    with Inl show ?thesis by (simp add: DestroyOrb_def DestroyOrb_try_def)
  next
    case (Inr u)
    show ?thesis
    proof (cases "ORB_destroy E (orb s)")
      case (Inl e)
      with assms(2) obtain c where "e = CORBA_Exception c" by (cases e) auto
      with Inl Inr show ?thesis by (simp add: DestroyOrb_def DestroyOrb_try_def)
    next
      case (Inr v)
      with \<open>NamingContext_destroy E (rootContext s) = Inr u\<close> show ?thesis
        by (simp add: DestroyOrb_def DestroyOrb_try_def)
    qed
  qed
qed (simp_all add: DestroyOrb_def DestroyOrb_try_def)

theorem DestroyOrb_swallows_CORBA_exceptions_witness:
  "DestroyOrb demo_env initial_state =
     (Inr (), initial_state\<lparr>cerr := cerr initial_state @
        [''Orb destruction : CORBA exception raised!'', ''INV_OBJREF'']\<rparr>)
   \<and> fst (DestroyOrb demo_env (snd (InitOrb env_unreachable [] initial_state))) = Inr ()
   \<and> DestroyOrb env_destroy_fails ready_state =
       (Inr (), ready_state\<lparr>cerr := cerr ready_state @
          [''Orb destruction : CORBA exception raised!'', ''BAD_INV_ORDER'']\<rparr>)"
proof -
  have h1: "\<forall>e. NamingContext_destroy demo_env (rootContext s) = Inl e \<longrightarrow> is_CORBA e" for s
    by (simp add: env_defs)
  have h2: "\<forall>e. ORB_destroy demo_env (orb s) = Inl e \<longrightarrow> is_CORBA e" for s
    by (simp add: env_defs)
  have h3: "NamingContext_destroy demo_env (rootContext initial_state)
              = Inl (CORBA_Exception (SystemException ''INV_OBJREF''))"
    by (simp add: env_defs)
  have k1: "\<forall>e. NamingContext_destroy env_destroy_fails (rootContext ready_state) = Inl e
              \<longrightarrow> is_CORBA e"
    by (simp add: env_defs)
  have k2: "\<forall>e. ORB_destroy env_destroy_fails (orb ready_state) = Inl e \<longrightarrow> is_CORBA e"
    by (simp add: env_defs)
  have k3: "NamingContext_destroy env_destroy_fails (rootContext ready_state) = Inr ()
            \<and> ORB_destroy env_destroy_fails (orb ready_state)
                = Inl (CORBA_Exception (SystemException ''BAD_INV_ORDER''))"
    by (simp add: env_defs)
  from DestroyOrb_swallows_CORBA_exceptions [OF h1 h2, of initial_state] h3
  have a: "DestroyOrb demo_env initial_state =
     (Inr (), initial_state\<lparr>cerr := cerr initial_state @
        [''Orb destruction : CORBA exception raised!'', ''INV_OBJREF'']\<rparr>)"
    by simp
  from DestroyOrb_swallows_CORBA_exceptions
         [OF h1 h2, of "snd (InitOrb env_unreachable [] initial_state)"]
  have b: "fst (DestroyOrb demo_env (snd (InitOrb env_unreachable [] initial_state))) = Inr ()"
    by simp
  from DestroyOrb_swallows_CORBA_exceptions [OF k1 k2] k3
  have c: "DestroyOrb env_destroy_fails ready_state =
       (Inr (), ready_state\<lparr>cerr := cerr ready_state @
          [''Orb destruction : CORBA exception raised!'', ''BAD_INV_ORDER'']\<rparr>)"
    by simp
  from a b c show ?thesis by simp
qed

subsection \<open>knownTasks\<close>

lemma push_names_all:
  "\<forall>b \<in> set bl. binding_name b \<noteq> [] \<Longrightarrow>
   push_names bl names = (None, names @ map first_id bl)"
  by (induction bl arbitrary: names) (auto simp: first_id_def split: list.splits)

text \<open>
  On an iterator that serves \<open>pages\<close>, the loop ends and has appended one name for each
  binding, in the order served.
\<close>

lemma next_n_loop_serves:
  "serves E it pages \<Longrightarrow> \<forall>b \<in> set (concat pages). binding_name b \<noteq> [] \<Longrightarrow>
   next_n_loop E it names = Some (None, names @ map first_id (concat pages))"
proof (induction pages arbitrary: it names)
  case Nil
  then show ?case
    by (subst next_n_loop.simps) (auto split: sum.splits prod.splits)
next
  case (Cons p ps)
  from Cons.prems(1) obtain it' where
    n: "next_n E it 10 = Inr (True, p, it')" and s: "serves E it' ps"
    by (auto split: sum.splits prod.splits)
  from Cons.prems(2) have p: "\<forall>b \<in> set p. binding_name b \<noteq> []"
    and ps: "\<forall>b \<in> set (concat ps). binding_name b \<noteq> []" by auto
  have "next_n_loop E it names = next_n_loop E it' (names @ map first_id p)"
    by (subst next_n_loop.simps) (simp add: n push_names_all [OF p])
  also have "\<dots> = Some (None, (names @ map first_id p) @ map first_id (concat ps))"
    by (rule Cons.IH [OF s ps])
  finally show ?case by simp
qed



text \<open>
  \<open>knownTasks\<close> returns the empty list when resolving \<open>ControlTasks\<close> raises \<open>NotFound\<close>
  (the handler absorbs it), and when \<open>ControlTasks\<close> resolves to a naming context
  without bindings whose listing hands out a live iterator: that iterator answers
  false at once.
\<close>

lemma knownTasks_empty_live_iterator:
  "(resolve E (rootContext s) ControlTasks_name = Inl (CORBA_Exception NotFound)
      \<longrightarrow> knownTasks E s = Some (Inr []))
   \<and> (resolve E (rootContext s) ControlTasks_name = Inr control_tasks_var
        \<and> NamingContext_narrow E control_tasks_var = Inr control_tasks
        \<and> NamingContext_list E control_tasks 0 = Inr ([], binding_it)
        \<and> serves E binding_it []
      \<longrightarrow> knownTasks E s = Some (Inr []))"
proof (intro conjI impI)
  assume "resolve E (rootContext s) ControlTasks_name = Inl (CORBA_Exception NotFound)"
  then show "knownTasks E s = Some (Inr [])"
    by (simp add: knownTasks_def knownTasks_try_def)
next
  assume a: "resolve E (rootContext s) ControlTasks_name = Inr control_tasks_var
        \<and> NamingContext_narrow E control_tasks_var = Inr control_tasks
        \<and> NamingContext_list E control_tasks 0 = Inr ([], binding_it)
        \<and> serves E binding_it []"
  then have "next_n_loop E binding_it [] = Some (None, [] @ map first_id (concat []))"
    by (intro next_n_loop_serves) simp_all
  with a show "knownTasks E s = Some (Inr [])"
    by (simp add: knownTasks_def knownTasks_try_def)
qed

lemma knownTasks_empty_live_iterator_example:
  "knownTasks env_no_ControlTasks ready_state = Some (Inr [])
   \<and> serves env_empty [] []
   \<and> knownTasks env_empty ready_state = Some (Inr [])"
proof -
  have h1: "resolve env_no_ControlTasks (rootContext ready_state) ControlTasks_name
              = Inl (CORBA_Exception NotFound)"
    by (simp add: env_defs)
  have h2: "resolve env_empty (rootContext ready_state) ControlTasks_name = Inr (Ref 2)"
    by (simp add: env_defs ControlTasks_name_def)
  have h3: "NamingContext_narrow env_empty (Ref 2) = Inr (Ref 2)"
    by (simp add: env_defs)
  have h4: "NamingContext_list env_empty (Ref 2) 0 = Inr ([], [])"
    by (simp add: env_defs)
  have h5: "serves env_empty [] []"
    by (simp add: env_defs registry_next_n_def)
  from knownTasks_empty_live_iterator [where E = env_no_ControlTasks and s = ready_state] h1
  have a: "knownTasks env_no_ControlTasks ready_state = Some (Inr [])" by blast
  from knownTasks_empty_live_iterator
    [where E = env_empty and s = ready_state and control_tasks_var = "Ref 2"
      and control_tasks = "Ref 2" and binding_it = "[]"] h2 h3 h4 h5
  have b: "knownTasks env_empty ready_state = Some (Inr [])" by blast
  from a b h5 show ?thesis by simp
qed

text \<open>
  With bindings under \<open>ControlTasks\<close> the CosNaming service hands out a live iterator
  for \<open>list(0, ...)\<close>, and \<open>knownTasks\<close> lists them.
\<close>

lemma knownTasks_cos_nonempty:
  "knownTasks env_demo_cos ready_state = Some (Inr [''alpha'', ''beta'', ''gamma''])"
  by code_simp

text \<open>
  C6. \<open>knownTasks\<close> is to return the empty list both when \<open>ControlTasks\<close> is missing
  and when it exists without bindings. The second does not hold of the code on a
  naming service that follows CosNaming: for an empty context \<open>list(0, ...)\<close> returns
  a nil iterator, lines 83 to 85 call \<open>next_n\<close> on it without a nil test, the call
  raises \<open>INV_OBJREF\<close>, and the only handler, for \<open>NotFound\<close>, does not match. With
  \<open>ControlTasks\<close> resolving to an existing, empty context, \<open>knownTasks\<close> raises
  \<open>INV_OBJREF\<close> to its caller and returns no list.
\<close>

theorem knownTasks_empty_context_nil_iterator:
  "resolve env_empty_nil_iterator (rootContext ready_state) ControlTasks_name = Inr (Ref 2)
   \<and> NamingContext_narrow env_empty_nil_iterator (Ref 2) = Inr (Ref 2)
   \<and> NamingContext_list env_empty_nil_iterator (Ref 2) 0 = Inr ([], None)
   \<and> next_n env_empty_nil_iterator None 10 = Inl INV_OBJREF
   \<and> knownTasks env_empty_nil_iterator ready_state = Some (Inl INV_OBJREF)
   \<and> knownTasks env_empty_nil_iterator ready_state \<noteq> Some (Inr [])"
proof -
  have h1: "resolve env_empty_nil_iterator (rootContext ready_state) ControlTasks_name
              = Inr (Ref 2)"
    by (simp add: env_empty_nil_iterator_def cos_registry_env_def env_defs ControlTasks_name_def)
  have h2: "NamingContext_narrow env_empty_nil_iterator (Ref 2) = Inr (Ref 2)"
    by (simp add: env_empty_nil_iterator_def cos_registry_env_def env_defs)
  have h3: "NamingContext_list env_empty_nil_iterator (Ref 2) 0 = Inr ([], None)"
    by (simp add: env_empty_nil_iterator_def cos_registry_env_def cos_list_def)
  have h4: "next_n env_empty_nil_iterator None 10 = Inl INV_OBJREF"
    by (simp add: env_empty_nil_iterator_def cos_registry_env_def cos_next_n_def)
  have h5: "next_n_loop env_empty_nil_iterator None [] = Some (Some INV_OBJREF, [])"
    by (subst next_n_loop.simps) (simp add: h4)
  have h6: "knownTasks env_empty_nil_iterator ready_state = Some (Inl INV_OBJREF)"
    by (simp add: knownTasks_def knownTasks_try_def h1 h2 h3 h5 INV_OBJREF_def)
  from h1 h2 h3 h4 h6 show ?thesis by simp
qed

subsection \<open>findByName\<close>

lemma what_IllegalServer_ctor:
  "what IllegalServer_ctor = ''This server does not exist or has the wrong type.''"
  by (simp add: what_def IllegalServer_ctor_def c_str_def)

text \<open>
  C1. When resolving \<open>ControlTasks/name\<close> raises a CORBA exception (\<open>NotFound\<close> for a
  name that is not bound), and when it resolves but narrowing to \<open>ControlTask\<close> yields
  nil, \<open>findByName\<close> raises \<open>IllegalServer\<close>, whose reason reads that the server does
  not exist or has the wrong type. \<open>findByName\<close> never returns a nil handle.
\<close>

theorem findByName_failure_is_IllegalServer:
  "(resolve E (rootContext s) (task_name name) = Inl (CORBA_Exception c)
      \<longrightarrow> fst (findByName E name s) = Inl (IllegalServer_exn IllegalServer_ctor))
   \<and> (resolve E (rootContext s) (task_name name) = Inr task_object
        \<and> ControlTask_narrow E task_object = Inr nil
      \<longrightarrow> fst (findByName E name s) = Inl (IllegalServer_exn IllegalServer_ctor))
   \<and> fst (findByName E name s) \<noteq> Inr nil
   \<and> what IllegalServer_ctor = ''This server does not exist or has the wrong type.''"
proof (intro conjI impI)
  show "fst (findByName E name s) \<noteq> Inr nil"
  proof
    assume r: "fst (findByName E name s) = Inr nil"
    obtain x s1 where t: "findByName_try E name s = (x, s1)"
      by (cases "findByName_try E name s")
    with r have "x = Inr nil"
      by (cases "(x, s1)" rule: findByName_catch.cases) (auto simp: findByName_def)
    with t show False
      by (auto simp: findByName_try_def is_nil_def split: sum.splits if_splits)
  qed
qed (simp_all add: findByName_def findByName_try_def is_nil_def what_IllegalServer_ctor)

theorem findByName_failure_is_IllegalServer_witness:
  "fst (findByName demo_env ''delta'' ready_state) = Inl (IllegalServer_exn IllegalServer_ctor)
   \<and> fst (findByName demo_env ''gamma'' ready_state) = Inl (IllegalServer_exn IllegalServer_ctor)
   \<and> fst (findByName demo_env ''alpha'' ready_state) \<noteq> Inr nil"
proof -
  have h1: "resolve demo_env (rootContext ready_state) (task_name ''delta'')
              = Inl (CORBA_Exception NotFound)"
    by (simp add: env_defs task_name_def c_str_def)
  have h2: "resolve demo_env (rootContext ready_state) (task_name ''gamma'') = Inr (Ref 12)"
    by (simp add: env_defs task_name_def c_str_def)
  have h3: "ControlTask_narrow demo_env (Ref 12) = Inr nil"
    by (simp add: env_defs)
  from findByName_failure_is_IllegalServer
    [where E = demo_env and s = ready_state and name = "''delta''" and c = NotFound] h1
  have a: "fst (findByName demo_env ''delta'' ready_state)
             = Inl (IllegalServer_exn IllegalServer_ctor)" by blast
  from findByName_failure_is_IllegalServer
    [where E = demo_env and s = ready_state and name = "''gamma''" and task_object = "Ref 12"]
    h2 h3
  have b: "fst (findByName demo_env ''gamma'' ready_state)
             = Inl (IllegalServer_exn IllegalServer_ctor)" by blast
  from findByName_failure_is_IllegalServer
    [where E = demo_env and s = ready_state and name = "''alpha''"]
  have c: "fst (findByName demo_env ''alpha'' ready_state) \<noteq> Inr nil" by blast
  from a b c show ?thesis by simp
qed

text \<open>
  C7. When \<open>findByName\<close> returns normally, the handle it returns is the non-nil result
  of narrowing the object that \<open>ControlTasks/name\<close> resolves to, \<open>getName\<close> was called
  on that handle and answered, and the line written to \<open>cout\<close> carries the name it
  answered: the identity declared by the object registered under \<open>name\<close>. Nothing else
  of the state changes.
\<close>

theorem findByName_returns_verified_handle:
  assumes "findByName E name s = (Inr mtask, s')"
  shows "\<exists>task_object nm.
           resolve E (rootContext s) (task_name name) = Inr task_object
           \<and> ControlTask_narrow E task_object = Inr mtask
           \<and> mtask \<noteq> nil
           \<and> getName E mtask = Inr nm
           \<and> s' = s\<lparr>cout := cout s @
                   [''Successfully connected to ControlTaskServer '' @ quote @ nm @ quote @ ''.'']\<rparr>"
proof -
  obtain x s1 where t: "findByName_try E name s = (x, s1)"
    by (cases "findByName_try E name s")
  with assms have "x = Inr mtask \<and> s1 = s'"
    by (cases "(x, s1)" rule: findByName_catch.cases) (auto simp: findByName_def)
  with t have "findByName_try E name s = (Inr mtask, s')" by simp
  then show ?thesis
    by (auto simp: findByName_try_def is_nil_def split: sum.splits if_splits)
qed

theorem findByName_returns_verified_handle_witness:
  "findByName demo_env ''alpha'' ready_state =
     (Inr (Ref 10),
      ready_state\<lparr>cout := cout ready_state @
        [''Successfully connected to ControlTaskServer '' @ quote @ ''alpha'' @ quote @ ''.'']\<rparr>)
   \<and> getName demo_env (Ref 10) = Inr ''alpha''"
proof -
  have h: "findByName demo_env ''alpha'' ready_state =
     (Inr (Ref 10),
      ready_state\<lparr>cout := cout ready_state @
        [''Successfully connected to ControlTaskServer '' @ quote @ ''alpha'' @ quote @ ''.'']\<rparr>)"
    by (simp add: findByName_def findByName_try_def env_defs task_name_def c_str_def is_nil_def)
  from findByName_returns_verified_handle [OF h]
  have "\<exists>nm. getName demo_env (Ref 10) = Inr nm" by blast
  then have "getName demo_env (Ref 10) = Inr ''alpha''"
    by (simp add: env_defs)
  with h show ?thesis by simp
qed

text \<open>
  C8. When one of the calls \<open>findByName\<close> makes (\<open>resolve\<close>, the narrowing, \<open>getName\<close>)
  raises something that is not a CORBA exception, \<open>findByName\<close> writes its
  diagnostic to \<open>cerr\<close> and raises that same exception: it is not replaced by
  \<open>IllegalServer\<close>.
\<close>

theorem findByName_rethrows_unclassified:
  assumes "\<not> is_CORBA e"
    and "resolve E (rootContext s) (task_name name) = Inl e
         \<or> (\<exists>task_object.
               resolve E (rootContext s) (task_name name) = Inr task_object
               \<and> (ControlTask_narrow E task_object = Inl e
                  \<or> (\<exists>mtask. ControlTask_narrow E task_object = Inr mtask
                        \<and> mtask \<noteq> nil \<and> getName E mtask = Inl e)))"
  shows "findByName E name s =
           (Inl e, s\<lparr>cerr := cerr s @ [''Unknown Exception in CorbaAccess construction!'']\<rparr>)"
proof -
  from assms(2) have "findByName_try E name s = (Inl e, s)"
    by (auto simp: findByName_try_def is_nil_def)
  with assms(1) show ?thesis
    by (cases e) (simp_all add: findByName_def)
qed

theorem findByName_rethrows_unclassified_witness:
  "findByName env_bad_alloc ''alpha'' ready_state =
     (Inl (Other_exn ''std::bad_alloc''),
      ready_state\<lparr>cerr := cerr ready_state @
        [''Unknown Exception in CorbaAccess construction!'']\<rparr>)"
proof -
  have h1: "\<not> is_CORBA (Other_exn ''std::bad_alloc'')" by simp
  have h2: "resolve env_bad_alloc (rootContext ready_state) (task_name ''alpha'') = Inr (Ref 10)"
    by (simp add: env_defs task_name_def c_str_def)
  have h3: "ControlTask_narrow env_bad_alloc (Ref 10) = Inr (Ref 10)"
    by (simp add: env_defs)
  have h4: "getName env_bad_alloc (Ref 10) = Inl (Other_exn ''std::bad_alloc'')"
    by (simp add: env_defs)
  show ?thesis
    by (rule findByName_rethrows_unclassified [OF h1]) (simp add: h2 h3 h4)
qed

end
